theory Spec2Isabelle
  imports Complex_Main
begin

section \<open>Thermodynamic core (src/utils/thermo.ts)\<close>

text \<open>
  A TypeScript \<open>number\<close> is modelled as a \<open>real\<close> and the arithmetic of the formulas as
  exact. The doubles of the program round, overflow and underflow, and \<open>Math.exp\<close>
  is accurate only up to its implementation, so the model says which formula the
  program evaluates and which branch it takes, not the digits it returns. The
  theorems of this development use of the arithmetic only what is true of the doubles
  as well: the comparisons that select a branch, the value a branch returns, the
  identity \<open>x - GAMMA * (T - T) = x\<close>, and the multiples of \<open>0.5\<close> up to \<open>40.5\<close>, which
  are doubles and are added exactly. No theorem rests on \<open>exp\<close> being positive, finite
  or increasing.

  Division is the one place where HOL and the program part ways on reals
  (\<open>x / 0 = 0\<close> in HOL), so every division of the source is looked at where it is
  translated.
\<close>

definition GAMMA :: real where
  "GAMMA = 0.066"

definition SLOPE_SCALE :: real where
  "SLOPE_SCALE = 10"

text \<open>
  \<^verbatim>\<open>return 0.6108 * Math.exp((17.27 * T) / (237.3 + T));\<close>

  The divisor \<open>237.3 + T\<close> is zero exactly at \<open>T = -237.3\<close>. There the dividend
  \<open>17.27 * T\<close> is negative, the quotient of the program is \<open>-Infinity\<close>,
  \<open>Math.exp(-Infinity)\<close> is \<open>0\<close> and the product is \<open>0\<close>. The first branch
  writes this out; the second branch is the formula as the source has it, in exact
  arithmetic. The double that the program returns differs from it by rounding, and
  is \<open>0\<close> or \<open>Infinity\<close> where \<open>Math.exp\<close> underflows or overflows; the theorems
  below use \<open>calculateSatVaporPressure\<close> only as the value that the callers pass on.
\<close>

definition calculateSatVaporPressure :: "real \<Rightarrow> real" where
  "calculateSatVaporPressure T =
     (if 237.3 + T = 0 then 0
      else 0.6108 * exp ((17.27 * T) / (237.3 + T)))"

datatype regime = limited | saturated

record isothermal =
  eI :: real
  regime :: regime

definition calculateIsothermalVaporPressure :: "real \<Rightarrow> real \<Rightarrow> isothermal" where
  "calculateIsothermalVaporPressure Ts Ta =
     (let es_star = calculateSatVaporPressure Ts;
          ea_star = calculateSatVaporPressure Ta;
          projected_e = es_star - GAMMA * (Ta - Ts)
      in if Ts \<le> Ta
         then \<lparr> eI = projected_e, regime = limited \<rparr>
         else \<lparr> eI = ea_star, regime = saturated \<rparr>)"

text \<open>
  The only division of \<open>calculateLEI\<close> is by \<open>denominator\<close>, and it is reached only
  after the guard \<open>denominator === 0\<close> has failed, so the division of HOL is the
  division of the program there. The parameter \<open>eI\<close> is received and never read.
\<close>

definition calculateLEI :: "real \<Rightarrow> real \<Rightarrow> real \<Rightarrow> real \<Rightarrow> real \<Rightarrow> real \<Rightarrow> real" where
  "calculateLEI Qn eI ea es_star Ts Ta =
     (let denominator = (es_star - ea) - GAMMA * (Ta - Ts)
      in if denominator = 0 then 0
         else if Ts \<le> Ta then Qn
         else (let ea_star = calculateSatVaporPressure Ta
               in Qn * ((ea_star - ea) / denominator)))"
  for eI :: real

section \<open>The state diagram (src/components/IsenthalpicDiagram.tsx)\<close>

text \<open>
  The component draws on a fixed canvas; the constants and the two scale functions are
  those of the component body.
\<close>

definition width :: real where
  "width = 600"

definition height :: real where
  "height = 400"

record padding_box =
  top :: real
  right :: real
  bottom :: real
  left :: real

definition padding :: padding_box where
  "padding = \<lparr> top = 20, right = 30, bottom = 50, left = 60 \<rparr>"

definition minT :: real where
  "minT = 0"

definition maxT :: real where
  "maxT = 40"

definition minE :: real where
  "minE = 0"

definition maxE :: real where
  "maxE = 8"

definition scaleX :: "real \<Rightarrow> real" where
  "scaleX t =
     left padding + (t - minT) / (maxT - minT) * (width - left padding - right padding)"

definition scaleY :: "real \<Rightarrow> real" where
  "scaleY e =
     height - bottom padding
       - (e - minE) / (maxE - minE) * (height - top padding - bottom padding)"

text \<open>
  The attribute \<open>d\<close> of the SVG path is a string of commands \<^verbatim>\<open>M x y\<close> and
  \<^verbatim>\<open>L x y\<close>; it is modelled as the list of these commands, in order.

  \<^verbatim>\<open>
  let d = `M ${scaleX(minT)} ${scaleY(calculateSatVaporPressure(minT))}`;
  for (let t = minT; t <= maxT; t += 0.5) {
    d += ` L ${scaleX(t)} ${scaleY(calculateSatVaporPressure(t))}`;
  }
  return d;
  \<close>

  The loop is the recursion \<open>saturationCurvePath_loop\<close> on the counter \<open>t\<close> and the
  string built so far. Every value the counter takes (a multiple of \<open>0.5\<close> up to
  \<open>40.5\<close>) is a double, so the additions of the program are exact as well.
\<close>

datatype path_cmd = MoveTo real real | LineTo real real

function saturationCurvePath_loop :: "real \<Rightarrow> path_cmd list \<Rightarrow> path_cmd list" where
  "saturationCurvePath_loop t d =
     (if t \<le> maxT
      then saturationCurvePath_loop (t + 0.5)
             (d @ [LineTo (scaleX t) (scaleY (calculateSatVaporPressure t))])
      else d)"
  by pat_completeness auto

termination
proof (relation "measure (\<lambda>(t, d). nat (\<lceil>2 * (maxT - t)\<rceil> + 1))")
  show "wf (measure (\<lambda>(t, d). nat (\<lceil>2 * (maxT - t)\<rceil> + 1)))"
    by simp
next
  fix t :: real and d :: "path_cmd list"
  assume le: "t \<le> maxT"
  have "2 * (maxT - (t + 0.5)) = 2 * (maxT - t) - 1"
    by simp
  then have step: "\<lceil>2 * (maxT - (t + 0.5))\<rceil> = \<lceil>2 * (maxT - t)\<rceil> - 1"
    by (simp only: ceiling_diff_one)
  have "0 \<le> \<lceil>2 * (maxT - t)\<rceil>"
    using le by simp
  then show "((t + 0.5, d @ [LineTo (scaleX t) (scaleY (calculateSatVaporPressure t))]), (t, d))
        \<in> measure (\<lambda>(t, d). nat (\<lceil>2 * (maxT - t)\<rceil> + 1))"
    using step by simp
qed

declare saturationCurvePath_loop.simps [simp del]

definition saturationCurvePath :: "path_cmd list" where
  "saturationCurvePath =
     saturationCurvePath_loop minT
       [MoveTo (scaleX minT) (scaleY (calculateSatVaporPressure minT))]"

text \<open>
  The component is a function of its props. Of what it renders, the model keeps the
  saturation curve and the three marked points with the regime badge; the callbacks
  \<open>onSurfaceChange\<close> and \<open>onAirChange\<close> and the dragging state do not enter any of
  these. \<open>saturationCurvePath\<close> is memoised with an empty dependency list and its
  body reads no prop.
\<close>

record IsenthalpicDiagramProps =
  props_Ts :: real
  props_Ta :: real
  props_ea :: real

record diagram =
  curve_d :: "path_cmd list"
  surface_point :: "real \<times> real"
  air_point :: "real \<times> real"
  isothermal_point :: "real \<times> real"
  regime_badge :: regime

definition IsenthalpicDiagram :: "IsenthalpicDiagramProps \<Rightarrow> diagram" where
  "IsenthalpicDiagram p =
     (let es_star = calculateSatVaporPressure (props_Ts p);
          iso = calculateIsothermalVaporPressure (props_Ts p) (props_Ta p)
      in \<lparr> curve_d = saturationCurvePath,
           surface_point = (scaleX (props_Ts p), scaleY es_star),
           air_point = (scaleX (props_Ta p), scaleY (props_ea p)),
           isothermal_point = (scaleX (props_Ta p), scaleY (eI iso)),
           regime_badge = regime iso \<rparr>)"

section \<open>The sampling loop of the saturation curve\<close>

text \<open>
  Started at the \<open>n\<close>-th multiple of \<open>0.5\<close>, the loop appends one line command for
  each multiple from the \<open>n\<close>-th to the \<open>80\<close>-th, which is \<open>40\<close>, and stops at \<open>40.5\<close>.
\<close>

lemma saturationCurvePath_loop_from:
  "n \<le> 81 \<Longrightarrow>
   saturationCurvePath_loop (real n / 2) d =
     d @ map (\<lambda>k. LineTo (scaleX (real k / 2))
                        (scaleY (calculateSatVaporPressure (real k / 2)))) [n..<81]"
proof (induction "81 - n" arbitrary: n d)
  case 0
  then have n: "n = 81"
    by simp
  show ?case
    unfolding n by (subst saturationCurvePath_loop.simps) (simp add: maxT_def)
next
  case (Suc m)
  then have lt: "n < 81" and m: "m = 81 - Suc n" and le: "Suc n \<le> 81"
    by simp_all
  have in_range: "real n / 2 \<le> maxT"
    using lt by (simp add: maxT_def)
  have next_t: "real n / 2 + 0.5 = real (Suc n) / 2"
    by (simp add: field_simps)
  have "saturationCurvePath_loop (real n / 2) d =
        saturationCurvePath_loop (real (Suc n) / 2)
          (d @ [LineTo (scaleX (real n / 2))
                       (scaleY (calculateSatVaporPressure (real n / 2)))])"
    using in_range by (subst saturationCurvePath_loop.simps) (simp only: next_t if_True)
  also have "\<dots> =
        (d @ [LineTo (scaleX (real n / 2))
                     (scaleY (calculateSatVaporPressure (real n / 2)))])
        @ map (\<lambda>k. LineTo (scaleX (real k / 2))
                          (scaleY (calculateSatVaporPressure (real k / 2)))) [Suc n..<81]"
    using Suc.hyps(1) [OF m le] .
  also have "\<dots> =
        d @ map (\<lambda>k. LineTo (scaleX (real k / 2))
                          (scaleY (calculateSatVaporPressure (real k / 2)))) [n..<81]"
    using lt by (simp add: upt_conv_Cons)
  finally show ?case .
qed

lemma saturationCurvePath_samples:
  "saturationCurvePath =
     MoveTo (scaleX 0) (scaleY (calculateSatVaporPressure 0)) #
     map (\<lambda>t. LineTo (scaleX t) (scaleY (calculateSatVaporPressure t)))
         (map (\<lambda>k. real k / 2) [0..<81])"
  using saturationCurvePath_loop_from
          [of 0 "[MoveTo (scaleX 0) (scaleY (calculateSatVaporPressure 0))]"]
  by (simp add: saturationCurvePath_def minT_def comp_def)

section \<open>The claims\<close>

subsection \<open>C1: the flux in the energy-limited regime\<close>

text \<open>
  Claim C1, as amended. For \<open>Ts \<le> Ta\<close> and every \<open>Qn\<close>, \<open>eI\<close>, \<open>ea\<close> and
  \<open>es_star\<close>, \<open>calculateLEI\<close> returns \<open>Qn\<close> exactly when the denominator
  \<open>(es_star - ea) - GAMMA * (Ta - Ts)\<close> is not zero, and \<open>0\<close> when it is zero: the
  guard on the denominator comes before the test of the regime.
\<close>

theorem calculateLEI_limited:
  "Ts \<le> Ta \<Longrightarrow>
   calculateLEI Qn e_I ea es_star Ts Ta =
     (if (es_star - ea) - GAMMA * (Ta - Ts) = 0 then 0 else Qn)"
  by (simp add: calculateLEI_def)

text \<open>
  At \<open>Ts = 10\<close>, \<open>Ta = 20\<close>, \<open>ea = 1\<close>, \<open>es_star = 2\<close> the denominator is \<open>0.34\<close>;
  at \<open>Ts = Ta = 20\<close>, \<open>ea = es_star = 1\<close> it is zero.
\<close>

theorem calculateLEI_limited_witness:
  "(10::real) \<le> 20 \<and> calculateLEI 100 0 1 2 10 20 = 100 \<and>
   (20::real) \<le> 20 \<and> calculateLEI 100 0 1 1 20 20 = 0"
  using calculateLEI_limited [of 10 20 100 0 1 2] calculateLEI_limited [of 20 20 100 0 1 1]
  by (simp add: GAMMA_def)

text \<open>
  As C1 is written, without the condition on the denominator, it fails: at
  \<open>Ts = Ta = 20\<close> and \<open>ea = es_star = 1\<close> the denominator is zero and the flux
  returned for \<open>Qn = 100\<close> is \<open>0\<close>.
\<close>

theorem calculateLEI_limited_counterexample:
  "(20::real) \<le> 20 \<and> calculateLEI 100 0 1 1 20 20 \<noteq> 100"
  by (simp add: calculateLEI_def)

subsection \<open>C2: the two regimes of the isothermal vapour pressure\<close>

text \<open>
  Claim C2. For every \<open>Ts\<close> and \<open>Ta\<close>: when \<open>Ts \<le> Ta\<close> the result of
  \<open>calculateIsothermalVaporPressure\<close> has regime \<open>limited\<close> and \<open>eI\<close> equal to the
  projection \<open>e*(Ts) - GAMMA * (Ta - Ts)\<close>; when \<open>Ts > Ta\<close> it has regime
  \<open>saturated\<close> and \<open>eI\<close> equal to the saturation value \<open>e*(Ta)\<close>.
\<close>

theorem calculateIsothermalVaporPressure_regimes:
  "(Ts \<le> Ta \<longrightarrow>
      calculateIsothermalVaporPressure Ts Ta =
        \<lparr> eI = calculateSatVaporPressure Ts - GAMMA * (Ta - Ts), regime = limited \<rparr>) \<and>
   (Ta < Ts \<longrightarrow>
      calculateIsothermalVaporPressure Ts Ta =
        \<lparr> eI = calculateSatVaporPressure Ta, regime = saturated \<rparr>)"
  by (simp add: calculateIsothermalVaporPressure_def)

text \<open>One input for each regime: \<open>(Ts, Ta) = (10, 20)\<close> and \<open>(20, 10)\<close>.\<close>

theorem calculateIsothermalVaporPressure_regimes_witness:
  "(10::real) \<le> 20 \<and>
   calculateIsothermalVaporPressure 10 20 =
     \<lparr> eI = calculateSatVaporPressure 10 - GAMMA * (20 - 10), regime = limited \<rparr> \<and>
   (10::real) < 20 \<and>
   calculateIsothermalVaporPressure 20 10 =
     \<lparr> eI = calculateSatVaporPressure 10, regime = saturated \<rparr>"
  using calculateIsothermalVaporPressure_regimes [of 10 20]
        calculateIsothermalVaporPressure_regimes [of 20 10]
  by simp

subsection \<open>C5: the guard on the denominator\<close>

text \<open>
  Claim C5. For every input whose denominator \<open>(es_star - ea) - GAMMA * (Ta - Ts)\<close> is
  zero, \<open>calculateLEI\<close> returns \<open>0\<close>. For every input whose denominator is not zero
  the guard is passed and the value of the regime is returned: \<open>Qn\<close> when \<open>Ts \<le> Ta\<close>,
  and otherwise the quotient, whose divisor is then not zero.
\<close>

theorem calculateLEI_zero_guard:
  "((es_star - ea) - GAMMA * (Ta - Ts) = 0 \<longrightarrow>
      calculateLEI Qn e_I ea es_star Ts Ta = 0) \<and>
   ((es_star - ea) - GAMMA * (Ta - Ts) \<noteq> 0 \<longrightarrow>
      calculateLEI Qn e_I ea es_star Ts Ta =
        (if Ts \<le> Ta then Qn
         else Qn * ((calculateSatVaporPressure Ta - ea)
                      / ((es_star - ea) - GAMMA * (Ta - Ts)))))"
  by (simp add: calculateLEI_def)

text \<open>One input with a zero denominator and one with the denominator \<open>0.34\<close>.\<close>

theorem calculateLEI_zero_guard_witness:
  "(1 - 1) - GAMMA * (20 - 20) = (0::real) \<and> calculateLEI 100 0 1 1 20 20 = 0 \<and>
   (2 - 1) - GAMMA * (20 - 10) \<noteq> (0::real) \<and> calculateLEI 100 0 1 2 10 20 = 100"
  using calculateLEI_zero_guard [of 1 1 20 20 100 0]
        calculateLEI_zero_guard [of 2 1 20 10 100 0]
  by (simp add: GAMMA_def)

subsection \<open>C7: the sampling of the saturation curve\<close>

text \<open>
  Claim C7. Whatever the props \<open>Ts\<close>, \<open>Ta\<close> and \<open>ea\<close> of the component, the path of
  the saturation curve starts with a move to the point of temperature \<open>0\<close> and goes on
  with one line to the point of each of the \<open>81\<close> temperatures \<open>0, 0.5, \<dots>, 40\<close>, at
  each of which \<open>calculateSatVaporPressure\<close> is evaluated; the path of one set of
  props is the path of any other.
\<close>

theorem saturation_curve_fixed_samples:
  "curve_d (IsenthalpicDiagram p) =
     MoveTo (scaleX 0) (scaleY (calculateSatVaporPressure 0)) #
     map (\<lambda>t. LineTo (scaleX t) (scaleY (calculateSatVaporPressure t)))
         (map (\<lambda>k. real k / 2) [0..<81]) \<and>
   length (map (\<lambda>k. real k / 2) [0..<81]) = 81 \<and>
   map (\<lambda>k. real k / 2) [0..<81] ! 0 = 0 \<and>
   map (\<lambda>k. real k / 2) [0..<81] ! 80 = 40 \<and>
   curve_d (IsenthalpicDiagram p) = curve_d (IsenthalpicDiagram q)"
proof -
  have "curve_d (IsenthalpicDiagram p) = saturationCurvePath"
    by (simp add: IsenthalpicDiagram_def Let_def)
  moreover have "curve_d (IsenthalpicDiagram q) = saturationCurvePath"
    by (simp add: IsenthalpicDiagram_def Let_def)
  moreover have "map (\<lambda>k. real k / 2) [0..<81] ! 0 = 0"
    by (simp only: nth_map length_upt nth_upt) simp
  moreover have "map (\<lambda>k. real k / 2) [0..<81] ! 80 = 40"
    by (simp only: nth_map length_upt nth_upt) simp
  ultimately show ?thesis
    by (simp only: saturationCurvePath_samples length_map length_upt) simp
qed

subsection \<open>C8: the flux does not read \<open>eI\<close>\<close>

text \<open>
  Claim C8. For every \<open>Qn\<close>, \<open>ea\<close>, \<open>es_star\<close>, \<open>Ts\<close>, \<open>Ta\<close> and any two values
  \<open>eI1\<close> and \<open>eI2\<close> of the parameter \<open>eI\<close>, \<open>calculateLEI\<close> returns the same result.
\<close>

theorem calculateLEI_ignores_eI:
  "calculateLEI Qn eI1 ea es_star Ts Ta = calculateLEI Qn eI2 ea es_star Ts Ta"
  by (simp add: calculateLEI_def)

subsection \<open>C9: continuity across the boundary of the regimes\<close>

text \<open>
  Claim C9. For every temperature \<open>T\<close>, at \<open>Ts = Ta = T\<close> the limited branch is taken
  and returns the energy-limited formula \<open>e*(Ts) - GAMMA * (Ta - Ts)\<close>, which there
  equals the energy-saturated value \<open>e*(Ta)\<close>; and for every \<open>Ts\<close> above \<open>T\<close> the
  saturated branch is taken at \<open>(Ts, T)\<close> and returns the very \<open>eI\<close> that is returned
  at the boundary \<open>(T, T)\<close>. The two branches agree at \<open>Ts = Ta\<close>.
\<close>

theorem isothermal_continuous_at_boundary:
  "regime (calculateIsothermalVaporPressure T T) = limited \<and>
   eI (calculateIsothermalVaporPressure T T) = calculateSatVaporPressure T - GAMMA * (T - T) \<and>
   calculateSatVaporPressure T - GAMMA * (T - T) = calculateSatVaporPressure T \<and>
   (T < Ts \<longrightarrow>
      regime (calculateIsothermalVaporPressure Ts T) = saturated \<and>
      eI (calculateIsothermalVaporPressure Ts T) = eI (calculateIsothermalVaporPressure T T))"
  by (simp add: calculateIsothermalVaporPressure_def)

text \<open>At the boundary \<open>T = 20\<close>, approached from \<open>Ts = 30\<close>.\<close>

theorem isothermal_continuous_at_boundary_witness:
  "(20::real) < 30 \<and>
   regime (calculateIsothermalVaporPressure 30 20) = saturated \<and>
   eI (calculateIsothermalVaporPressure 30 20) = eI (calculateIsothermalVaporPressure 20 20)"
  using isothermal_continuous_at_boundary [of 20 30] by simp

end
